theory Spec2Isabelle
  imports Main
begin

section \<open>Python values, exceptions and the built-in operations the code uses\<close>

text \<open>
  Exceptions are values. \<open>KeyError\<close>, \<open>TypeError\<close>, \<open>IndexError\<close>, \<open>NotImplementedError\<close> and
  \<open>Exception\<close> are the exceptions raised by Python's own operations and by the \<open>raise\<close>
  statements of this package. \<open>Raised x\<close> is an exception that comes out of an external
  collaborator (the STS client, \<open>aws_sso_lib\<close>, \<open>dateutil\<close>, \<open>input\<close>); the collaborators are
  parameters of the model and return \<open>string + 'a\<close>, \<open>Inl x\<close> being the exception they raise.
\<close>

datatype error =
    KeyError string
  | TypeError
  | IndexError
  | NotImplementedError string
  | Exception string
  | Raised string

text \<open>
  A \<open>datetime\<close> is offset-aware (an instant, counted in microseconds of UTC) or naive.
  \<open>datetime.datetime.now(tz=pytz.utc)\<close> is always aware.
\<close>

datatype datetime = Aware int | Naive int

text \<open>
  The values a cache entry can hold: \<open>None\<close>, booleans, integers, strings, lists and
  dicts with string keys, and \<open>datetime\<close> objects (the STS client returns \<open>Expiration\<close> as
  one); floats are left out, the code reads none. A \<open>dict\<close> is an association list read
  with \<open>map_of\<close>.
\<close>

datatype pyval =
    PNone
  | PBool bool
  | PInt int
  | PStr string
  | PDateTime datetime
  | PList "pyval list"
  | PDict "(string \<times> pyval) list"

text \<open>Truth value testing, as \<open>if session_data\<close> does it.\<close>

fun truthy :: "pyval \<Rightarrow> bool" where
  "truthy PNone = False"
| "truthy (PBool b) = b"
| "truthy (PInt n) = (n \<noteq> 0)"
| "truthy (PStr s) = (s \<noteq> [])"
| "truthy (PDateTime t) = True"
| "truthy (PList xs) = (xs \<noteq> [])"
| "truthy (PDict kvs) = (kvs \<noteq> [])"

text \<open>
  \<open>v[k]\<close> with a string key: a \<open>dict\<close> raises \<open>KeyError\<close> on a missing key, every other
  value raises \<open>TypeError\<close> (not subscriptable, or indices must be integers).
\<close>

fun subscript :: "pyval \<Rightarrow> string \<Rightarrow> error + pyval" where
  "subscript (PDict kvs) k = (case map_of kvs k of None \<Rightarrow> Inl (KeyError k) | Some v \<Rightarrow> Inr v)"
| "subscript PNone k = Inl TypeError"
| "subscript (PBool b) k = Inl TypeError"
| "subscript (PInt n) k = Inl TypeError"
| "subscript (PStr s) k = Inl TypeError"
| "subscript (PDateTime t) k = Inl TypeError"
| "subscript (PList xs) k = Inl TypeError"

text \<open>
  \<open>expiration < now\<close> where \<open>now\<close> is an aware datetime: instants are compared; a naive
  datetime, or a value that is no datetime, raises \<open>TypeError\<close>.
\<close>

fun less_than_now :: "pyval \<Rightarrow> int \<Rightarrow> error + bool" where
  "less_than_now (PDateTime (Aware t)) now = Inr (t < now)"
| "less_than_now (PDateTime (Naive t)) now = Inl TypeError"
| "less_than_now PNone now = Inl TypeError"
| "less_than_now (PBool b) now = Inl TypeError"
| "less_than_now (PInt n) now = Inl TypeError"
| "less_than_now (PStr s) now = Inl TypeError"
| "less_than_now (PList xs) now = Inl TypeError"
| "less_than_now (PDict kvs) now = Inl TypeError"

text \<open>Sequencing of computations that may raise, without and with a state.\<close>

definition and_then :: "error + 'a \<Rightarrow> ('a \<Rightarrow> error + 'b) \<Rightarrow> error + 'b" where
  "and_then m f = (case m of Inl e \<Rightarrow> Inl e | Inr v \<Rightarrow> f v)"

definition then_do ::
  "(error + 'a) \<times> 's \<Rightarrow> ('a \<Rightarrow> 's \<Rightarrow> (error + 'b) \<times> 's) \<Rightarrow> (error + 'b) \<times> 's" where
  "then_do m f = (case m of (Inl e, s) \<Rightarrow> (Inl e, s) | (Inr v, s) \<Rightarrow> f v s)"

definition from_collaborator :: "string + 'a \<Rightarrow> error + 'a" where
  "from_collaborator r = (case r of Inl x \<Rightarrow> Inl (Raised x) | Inr v \<Rightarrow> Inr v)"

text \<open>
  \<open>s.split(sep, maxsplit)\<close> for a separator of one character; a negative \<open>maxsplit\<close> (the
  default is \<open>-1\<close>) puts no limit on the number of splits.
\<close>

fun py_split :: "char \<Rightarrow> int \<Rightarrow> string \<Rightarrow> string list" where
  "py_split sep maxsplit [] = [[]]"
| "py_split sep maxsplit (x # xs) =
     (if maxsplit = 0 then [x # xs]
      else if x = sep then [] # py_split sep (maxsplit - 1) xs
      else (case py_split sep maxsplit xs of
              [] \<Rightarrow> [[x]]
            | seg # segs \<Rightarrow> (x # seg) # segs))"

text \<open>\<open>xs[i]\<close> for \<open>i \<ge> 0\<close> and \<open>xs[-1]\<close>: out of range raises \<open>IndexError\<close>.\<close>

definition py_index :: "'a list \<Rightarrow> nat \<Rightarrow> error + 'a" where
  "py_index xs i = (if i < length xs then Inr (xs ! i) else Inl IndexError)"

definition py_last :: "'a list \<Rightarrow> error + 'a" where
  "py_last xs = (case xs of [] \<Rightarrow> Inl IndexError | _ # _ \<Rightarrow> Inr (last xs))"

text \<open>
  The string-valued entries of an STS \<open>get_caller_identity\<close> response (\<open>UserId\<close>, \<open>Account\<close>,
  \<open>Arn\<close>); the code reads no other entry. \<open>identity[k]\<close> raises \<open>KeyError\<close> on a missing key.
\<close>

type_synonym identity = "(string \<times> string) list"

definition identity_getitem :: "identity \<Rightarrow> string \<Rightarrow> error + string" where
  "identity_getitem identity k =
     (case map_of identity k of None \<Rightarrow> Inl (KeyError k) | Some v \<Rightarrow> Inr v)"

section \<open>arn.py\<close>

record ARN =
  full_arn :: string
  arn :: string
  partition' :: string
  service :: string
  region :: string
  account :: string
  resource_type :: "string option"
  resource :: string

text \<open>\<open>ARN._get_resource\<close>.\<close>

definition get_resource :: "string list \<Rightarrow> error + (string option \<times> string)" where
  "get_resource elements =
     (if length elements = 7 then
        and_then (py_index elements 5) (\<lambda>e5.
        and_then (py_index elements 6) (\<lambda>e6.
        Inr (Some e5, e6)))
      else
        and_then (py_index elements 5) (\<lambda>e5.
        if CHR ''/'' \<notin> set e5 then Inr (None, e5)
        else
          let resource = py_split (CHR ''/'') 1 e5 in
          and_then (py_index resource 0) (\<lambda>r0.
          and_then (py_index resource 1) (\<lambda>r1.
          Inr (Some r0, r1)))))"

text \<open>\<open>ARN.__init__\<close>: the constructed object, or the exception the constructor raises.\<close>

definition ARN_init :: "string \<Rightarrow> error + ARN" where
  "ARN_init arn_string =
     (let elements = py_split (CHR '':'') (- 1) arn_string in
      and_then (py_index elements 0) (\<lambda>e0.
      and_then (py_index elements 1) (\<lambda>e1.
      and_then (py_index elements 2) (\<lambda>e2.
      and_then (py_index elements 3) (\<lambda>e3.
      and_then (py_index elements 4) (\<lambda>e4.
      and_then (get_resource elements) (\<lambda>(rt, r).
      Inr \<lparr> full_arn = arn_string, arn = e0, partition' = e1, service = e2, region = e3,
            account = e4, resource_type = rt, resource = r \<rparr>)))))))"

section \<open>mfa\_session.py: SessionCache\<close>

text \<open>
  The store behind \<open>SessionCache._cache\<close>: a key-value store read with \<open>cache[key]\<close>, which
  raises \<open>KeyError\<close> on a missing key, and written with \<open>cache[key] = data\<close>. The state of
  the store is what a read of each key gives. What a write does to it is the store's own
  business (\<open>SessionCache\<close> is given a botocore \<open>JSONFileCache\<close>, the tests give it their
  \<open>InMemoryCache\<close>), so the store's \<open>__setitem__\<close> is a parameter: from the store, the key
  and the value it gives the exception it raises, if any, and the store it leaves. Every
  operation of \<open>SessionCache\<close> takes the store and returns it with its result.
  The clock read by \<open>datetime.datetime.now(tz=pytz.utc)\<close> is the parameter \<open>now\<close>, and
  \<open>dateutil.parser.parse\<close> is the parameter \<open>parse\<close>. Logging is left out.
\<close>

type_synonym store = "string \<rightharpoonup> pyval"

definition store_getitem :: "store \<Rightarrow> string \<Rightarrow> error + pyval" where
  "store_getitem c key = (case c key of None \<Rightarrow> Inl (KeyError key) | Some v \<Rightarrow> Inr v)"

type_synonym setitem = "store \<Rightarrow> string \<Rightarrow> pyval \<Rightarrow> (string + unit) \<times> store"

text \<open>
  \<open>InMemoryCache.__setitem__\<close> of \<open>tests/mfa_session_test.py\<close>: the store keeps the value it
  is given.
\<close>

definition memory_setitem :: setitem where
  "memory_setitem c key data = (Inr (), c(key \<mapsto> data))"

text \<open>
  A stand-in for the \<open>__setitem__\<close> of botocore's \<open>JSONFileCache\<close>, as far as a later read
  sees it: the value is written as JSON, a \<open>datetime\<close> in it as the string \<open>strftime\<close> gives
  (the format of the timestamps in the tests), and a read gives the JSON back. \<open>strftime\<close>
  is a parameter.
\<close>

primrec json_value :: "(datetime \<Rightarrow> string) \<Rightarrow> pyval \<Rightarrow> pyval" where
  "json_value strftime PNone = PNone"
| "json_value strftime (PBool b) = PBool b"
| "json_value strftime (PInt n) = PInt n"
| "json_value strftime (PStr s) = PStr s"
| "json_value strftime (PDateTime t) = PStr (strftime t)"
| "json_value strftime (PList xs) = PList (map (json_value strftime) xs)"
| "json_value strftime (PDict kvs) = PDict (map (map_prod id (json_value strftime)) kvs)"

definition json_file_setitem :: "(datetime \<Rightarrow> string) \<Rightarrow> setitem" where
  "json_file_setitem strftime c key data = (Inr (), c(key \<mapsto> json_value strftime data))"

text \<open>
  Lines 41 to 43 of \<open>SessionCache._is_expired\<close>: the expiration read from the entry, parsed
  when it is a string.
\<close>

definition expiration_of :: "(string \<Rightarrow> string + datetime) \<Rightarrow> pyval \<Rightarrow> error + pyval" where
  "expiration_of parse session_data =
     and_then (subscript session_data ''Credentials'') (\<lambda>credentials.
     and_then (subscript credentials ''Expiration'') (\<lambda>expiration.
     (case expiration of
        PStr s \<Rightarrow> and_then (from_collaborator (parse s)) (\<lambda>t. Inr (PDateTime t))
      | _ \<Rightarrow> Inr expiration)))"

text \<open>\<open>SessionCache._is_expired\<close>.\<close>

definition is_expired :: "(string \<Rightarrow> string + datetime) \<Rightarrow> int \<Rightarrow> pyval \<Rightarrow> error + bool" where
  "is_expired parse now session_data =
     and_then (expiration_of parse session_data) (\<lambda>expiration.
     less_than_now expiration now)"

text \<open>\<open>SessionCache._get_cached_session\<close>: only the \<open>KeyError\<close> of the lookup is caught.\<close>

definition get_cached_session :: "string \<Rightarrow> store \<Rightarrow> (error + pyval) \<times> store" where
  "get_cached_session key c =
     (case store_getitem c key of
        Inr v \<Rightarrow> (Inr v, c)
      | Inl (KeyError k) \<Rightarrow> (Inr PNone, c)
      | Inl e \<Rightarrow> (Inl e, c))"

text \<open>\<open>SessionCache.get_session_token\<close>.\<close>

definition SessionCache_get_session_token ::
  "(string \<Rightarrow> string + datetime) \<Rightarrow> int \<Rightarrow> string \<Rightarrow> store \<Rightarrow> (error + pyval) \<times> store" where
  "SessionCache_get_session_token parse now key c =
     then_do (get_cached_session key c) (\<lambda>session_data c.
       if truthy session_data then
         (case is_expired parse now session_data of
            Inl e \<Rightarrow> (Inl e, c)
          | Inr expired \<Rightarrow> if expired then (Inr PNone, c) else (Inr session_data, c))
       else (Inr session_data, c))"

text \<open>\<open>SessionCache.cache_session\<close>: one write of the store; it returns \<open>None\<close>.\<close>

definition cache_session ::
  "setitem \<Rightarrow> string \<Rightarrow> pyval \<Rightarrow> store \<Rightarrow> (error + pyval) \<times> store" where
  "cache_session store_setitem key data c =
     (case store_setitem c key data of
        (Inl x, c') \<Rightarrow> (Inl (Raised x), c')
      | (Inr u, c') \<Rightarrow> (Inr PNone, c'))"

text \<open>\<open>cache_session(key, data)\<close> followed at once by \<open>get_session_token(key)\<close>.\<close>

definition round_trip ::
  "setitem \<Rightarrow> (string \<Rightarrow> string + datetime) \<Rightarrow> int \<Rightarrow> string \<Rightarrow> pyval \<Rightarrow> store
     \<Rightarrow> (error + pyval) \<times> store" where
  "round_trip store_setitem parse now key data c =
     then_do (cache_session store_setitem key data c)
       (\<lambda>r. SessionCache_get_session_token parse now key)"

section \<open>mfa\_session.py: CachedMfaSessionFactory\<close>

text \<open>
  What the factory does to the outside is recorded in a trace: every call of the STS
  client, of \<open>input\<close> and of \<open>aws_sso_lib\<close>, with its arguments, in the order made. The
  state of the factory's world is the store of its session cache and the trace.
\<close>

datatype event =
    Sts_get_caller_identity
  | Sts_get_session_token int string string
  | Builtin_input string
  | Sso_list_available_roles string string bool
  | Sso_get_boto3_session string string string string string bool
  | Session_get_caller_identity

record world =
  cache :: store
  trace :: "event list"

text \<open>
  The collaborators of the factory: the \<open>__setitem__\<close> of the store its session cache wraps,
  \<open>dateutil.parser.parse\<close>, the two operations of the STS client (\<open>get_session_token\<close> takes
  \<open>DurationSeconds\<close>, \<open>SerialNumber\<close> and \<open>TokenCode\<close>) and the built-in \<open>input\<close>, which takes
  the prompt.
\<close>

record collaborators =
  cache_setitem :: setitem
  dateutil_parse :: "string \<Rightarrow> string + datetime"
  sts_get_caller_identity :: "string + identity"
  sts_get_session_token :: "int \<Rightarrow> string \<Rightarrow> string \<Rightarrow> string + pyval"
  builtin_input :: "string \<Rightarrow> string + string"

definition on_cache :: "(store \<Rightarrow> (error + 'a) \<times> store) \<Rightarrow> world \<Rightarrow> (error + 'a) \<times> world" where
  "on_cache f w = (case f (cache w) of (r, c) \<Rightarrow> (r, w\<lparr>cache := c\<rparr>))"

definition call :: "event \<Rightarrow> string + 'a \<Rightarrow> event list \<Rightarrow> (error + 'a) \<times> event list" where
  "call ev response tr = (from_collaborator response, tr @ [ev])"

definition on_trace ::
  "(event list \<Rightarrow> (error + 'a) \<times> event list) \<Rightarrow> world \<Rightarrow> (error + 'a) \<times> world" where
  "on_trace f w = (case f (trace w) of (r, tr) \<Rightarrow> (r, w\<lparr>trace := tr\<rparr>))"

text \<open>
  \<open>_get_account_and_user\<close>; the STS client it is given is the response of that client's
  \<open>get_caller_identity\<close>.
\<close>

definition get_account_and_user ::
  "string + identity \<Rightarrow> event list \<Rightarrow> (error + string \<times> string) \<times> event list" where
  "get_account_and_user client_get_caller_identity tr =
     then_do (call Sts_get_caller_identity client_get_caller_identity tr) (\<lambda>identity tr.
       (and_then (identity_getitem identity ''Arn'') (\<lambda>arn.
        and_then (identity_getitem identity ''Account'') (\<lambda>account.
        and_then (py_last (py_split (CHR ''/'') (- 1) arn)) (\<lambda>user.
        Inr (account, user)))), tr))"

definition SESSION_KEY :: string where
  "SESSION_KEY = ''temporary_session''"

text \<open>The \<open>seconds\<close> attribute of \<open>datetime.timedelta(hours=h)\<close>, for \<open>h \<ge> 0\<close>.\<close>

definition timedelta_hours_seconds :: "int \<Rightarrow> int" where
  "timedelta_hours_seconds h = (h * 3600) mod 86400"

definition MFA_SESSION_DURATION_seconds :: int where
  "MFA_SESSION_DURATION_seconds = timedelta_hours_seconds 12"

text \<open>\<open>CachedMfaSessionFactory._create_session\<close>.\<close>

definition create_session ::
  "collaborators \<Rightarrow> string option \<Rightarrow> world \<Rightarrow> (error + pyval) \<times> world" where
  "create_session env mfa_token w =
     then_do
       (case mfa_token of
          None \<Rightarrow> on_trace (call (Builtin_input ''MFA code:'') (builtin_input env ''MFA code:'')) w
        | Some t \<Rightarrow>
            if t = [] then
              on_trace (call (Builtin_input ''MFA code:'') (builtin_input env ''MFA code:'')) w
            else (Inr t, w))
       (\<lambda>mfa_token w.
     then_do
       (on_trace (get_account_and_user (sts_get_caller_identity env)) w)
       (\<lambda>(account, user) w.
     let serial_number = ''arn:aws:iam::'' @ account @ '':mfa/'' @ user in
     then_do
       (on_trace
          (call (Sts_get_session_token MFA_SESSION_DURATION_seconds serial_number mfa_token)
             (sts_get_session_token env MFA_SESSION_DURATION_seconds serial_number mfa_token)) w)
       (\<lambda>session_data w.
     then_do (on_cache (cache_session (cache_setitem env) SESSION_KEY session_data) w)
       (\<lambda>r w. (Inr session_data, w)))))"

text \<open>\<open>CachedMfaSessionFactory.get_session_token\<close>.\<close>

definition CachedMfaSessionFactory_get_session_token ::
  "collaborators \<Rightarrow> int \<Rightarrow> string option \<Rightarrow> world \<Rightarrow> (error + pyval) \<times> world" where
  "CachedMfaSessionFactory_get_session_token env now mfa_token w =
     then_do
       (on_cache (SessionCache_get_session_token (dateutil_parse env) now SESSION_KEY) w)
       (\<lambda>session_data w.
          if truthy session_data then (Inr session_data, w)
          else create_session env mfa_token w)"

text \<open>The number of \<open>get_session_token\<close> exchanges in a trace.\<close>

fun is_exchange :: "event \<Rightarrow> bool" where
  "is_exchange (Sts_get_session_token d s t) = True"
| "is_exchange Sts_get_caller_identity = False"
| "is_exchange (Builtin_input p) = False"
| "is_exchange (Sso_list_available_roles r u l) = False"
| "is_exchange (Sso_get_boto3_session u r a n g l) = False"
| "is_exchange Session_get_caller_identity = False"

definition exchange_count :: "event list \<Rightarrow> nat" where
  "exchange_count tr = length (filter is_exchange tr)"

section \<open>sso\_session.py\<close>

record SSOSessionProvider =
  start_url :: string
  sso_region :: string

text \<open>
  A generator, as far as a \<open>for\<close> loop sees it: it is exhausted, it yields an item and goes
  on, or it raises.
\<close>

datatype 'a generator = Exhausted | Yield 'a "'a generator" | Raises string

text \<open>
  The collaborators of the SSO provider: \<open>list_available_roles\<close> of \<open>aws_sso_lib\<close> (taking
  \<open>sso_region\<close>, \<open>start_url\<close>, \<open>login\<close>; it yields tuples of account id, account name and role
  name), \<open>get_boto3_session\<close> (taking \<open>start_url\<close>, \<open>sso_region\<close>, \<open>account_id\<close>,
  \<open>role_name\<close>, \<open>region\<close>, \<open>login\<close>) and, for a session \<open>s\<close> it returns,
  \<open>s.client("sts").get_caller_identity()\<close>. The type \<open>'s\<close> is the session handle.
\<close>

record 's sso_lib =
  list_available_roles :: "string \<Rightarrow> string \<Rightarrow> bool \<Rightarrow> (string \<times> string \<times> string) generator"
  get_boto3_session ::
    "string \<Rightarrow> string \<Rightarrow> string \<Rightarrow> string \<Rightarrow> string \<Rightarrow> bool \<Rightarrow> string + 's"
  session_get_caller_identity :: "'s \<Rightarrow> string + identity"

text \<open>The property \<open>SSOSessionProvider.temporary_credentials\<close>.\<close>

definition SSO_temporary_credentials :: "SSOSessionProvider \<Rightarrow> error + pyval" where
  "SSO_temporary_credentials self =
     Inl (NotImplementedError ''SSO session uses token, not credentials'')"

text \<open>\<open>SSOSessionProvider.assume_role_session\<close>; \<open>session_name\<close> is not used.\<close>

definition SSO_assume_role_session ::
  "'s sso_lib \<Rightarrow> SSOSessionProvider \<Rightarrow> string \<Rightarrow> string \<Rightarrow> string \<Rightarrow> event list
     \<Rightarrow> (error + 's) \<times> event list" where
  "SSO_assume_role_session lib self role_arn region_name session_name tr =
     then_do (ARN_init role_arn, tr) (\<lambda>a tr.
       call (Sso_get_boto3_session (start_url self) (sso_region self) (account a) (resource a)
               region_name True)
            (get_boto3_session lib (start_url self) (sso_region self) (account a) (resource a)
               region_name True) tr)"

text \<open>
  \<open>SSOSessionProvider._get_any_role\<close>: the loop returns at the first item, so only the
  generator's first step is run.
\<close>

definition get_any_role ::
  "'s sso_lib \<Rightarrow> SSOSessionProvider \<Rightarrow> event list \<Rightarrow> (error + ARN) \<times> event list" where
  "get_any_role lib self tr =
     (let tr' = tr @ [Sso_list_available_roles (sso_region self) (start_url self) True] in
      case list_available_roles lib (sso_region self) (start_url self) True of
        Yield role rest \<Rightarrow>
          (ARN_init (''arn:aws:iam::'' @ fst role @ '':role/'' @ snd (snd role)), tr')
      | Raises x \<Rightarrow> (Inl (Raised x), tr')
      | Exhausted \<Rightarrow> (Inl (Exception ''No accessible roles found''), tr'))"

text \<open>\<open>SSOSessionProvider.get_user\<close>.\<close>

definition SSO_get_user ::
  "'s sso_lib \<Rightarrow> SSOSessionProvider \<Rightarrow> event list \<Rightarrow> (error + string) \<times> event list" where
  "SSO_get_user lib self tr =
     then_do (get_any_role lib self tr) (\<lambda>role tr.
     then_do (SSO_assume_role_session lib self (full_arn role) ''eu-west-1'' ''test'' tr)
       (\<lambda>session tr.
     then_do (call Session_get_caller_identity (session_get_caller_identity lib session) tr)
       (\<lambda>user_identity tr.
     (and_then (identity_getitem user_identity ''UserId'') (\<lambda>user_id.
      py_index (py_split (CHR '':'') 2 user_id) 1), tr))))"

section \<open>Data of the tests\<close>

text \<open>
  \<open>SESSION_DATA\<close> of \<open>tests/mfa_session_test.py\<close>, with the \<open>Expiration\<close> the test puts in.
\<close>

definition SESSION_DATA :: "pyval \<Rightarrow> pyval" where
  "SESSION_DATA expiration =
     PDict
       [(''Credentials'',
           PDict [(''AccessKeyId'', PStr ''temporary_access_key_id''),
                  (''SecretAccessKey'', PStr ''temporary_secret_access_key''),
                  (''SessionToken'', PStr ''token''),
                  (''Expiration'', expiration)]),
        (''AssumedRoleUser'',
           PDict [(''AssumedRoleId'', PStr ''temporary_access_key_id:fred''),
                  (''Arn'', PStr ''arn:aws:sts::496141846484:assumed-role/admin/fred'')]),
        (''ResponseMetadata'',
           PDict [(''RequestId'', PStr ''4f396cb1-3c68-11ea-94b0-71e1440a90e9''),
                  (''HTTPStatusCode'', PInt 200),
                  (''RetryAttempts'', PInt 0)])]"

text \<open>
  A stand-in for \<open>dateutil.parser.parse\<close> on two timestamps (written as the tests format
  them), giving their instants in microseconds; it raises on every other string.
\<close>

definition parse_stub :: "string \<Rightarrow> string + datetime" where
  "parse_stub s =
     (if s = ''2020-10-01T17:08:49UTC'' then Inr (Aware 1601572129000000)
      else if s = ''2030-01-01T00:00:00UTC'' then Inr (Aware 1893456000000000)
      else Inl ''ParserError'')"

text \<open>
  A stand-in for \<open>strftime\<close> on the same two instants, in the format of the tests
  (\<open>%Y-%m-%dT%H:%M:%S%Z\<close>).
\<close>

definition strftime_stub :: "datetime \<Rightarrow> string" where
  "strftime_stub t =
     (if t = Aware 1601572129000000 then ''2020-10-01T17:08:49UTC''
      else if t = Aware 1893456000000000 then ''2030-01-01T00:00:00UTC''
      else [])"

definition empty_store :: store where
  "empty_store = Map.empty"

text \<open>A store with one entry under \<open>key\<close>, as \<open>test_cache_manager_warm\<close> builds it.\<close>

definition store_with :: "pyval \<Rightarrow> store" where
  "store_with entry = Map.empty(''key'' \<mapsto> entry)"

text \<open>
  The \<open>InMemoryCache\<close> and the mocked STS client of
  \<open>test_temporary_credentials_from_session\<close>; \<open>input\<close> finds no terminal.
\<close>

definition mock_collaborators :: collaborators where
  "mock_collaborators =
     \<lparr> cache_setitem = memory_setitem,
       dateutil_parse = parse_stub,
       sts_get_caller_identity = Inr [(''Arn'', ''arn''), (''Account'', ''123456789012'')],
       sts_get_session_token =
         (\<lambda>duration serial code. Inr (SESSION_DATA (PStr ''2030-01-01T00:00:00UTC''))),
       builtin_input = (\<lambda>prompt. Inl ''EOFError'') \<rparr>"

definition cold_world :: world where
  "cold_world = \<lparr> cache = Map.empty, trace = [] \<rparr>"

definition warm_world :: world where
  "warm_world =
     \<lparr> cache = Map.empty(''temporary_session'' \<mapsto> SESSION_DATA (PStr ''2030-01-01T00:00:00UTC'')),
       trace = [Sts_get_caller_identity,
                Sts_get_session_token 43200 ''arn:aws:iam::123456789012:mfa/arn'' ''token''] \<rparr>"

text \<open>An SSO directory with one role, one with none, and a provider.\<close>

definition one_role_sso_lib :: "nat sso_lib" where
  "one_role_sso_lib =
     \<lparr> list_available_roles =
         (\<lambda>sso_region start_url login.
            Yield (''123456789012'', ''development'', ''administrator'') Exhausted),
       get_boto3_session = (\<lambda>start_url sso_region account_id role_name region login. Inr 0),
       session_get_caller_identity =
         (\<lambda>session. Inr [(''UserId'', ''AROAEXAMPLE:fred:botocore-session''),
                          (''Account'', ''123456789012'')]) \<rparr>"

definition no_role_sso_lib :: "nat sso_lib" where
  "no_role_sso_lib =
     \<lparr> list_available_roles = (\<lambda>sso_region start_url login. Exhausted),
       get_boto3_session = (\<lambda>start_url sso_region account_id role_name region login. Inr 0),
       session_get_caller_identity = (\<lambda>session. Inl ''ClientError'') \<rparr>"

definition sso_provider :: SSOSessionProvider where
  "sso_provider = \<lparr> start_url = ''https://example.awsapps.com/start'', sso_region = ''eu-west-1'' \<rparr>"

section \<open>Properties of the built-in operations\<close>

lemma and_then_simps:
  "and_then (Inl e) f = Inl e"
  "and_then (Inr v) f = f v"
  by (simp_all add: and_then_def)

lemma then_do_simps:
  "then_do (Inl e, s) g = (Inl e, s)"
  "then_do (Inr v, s) g = g v s"
  by (simp_all add: then_do_def)

lemma from_collaborator_simps:
  "from_collaborator (Inl x) = Inl (Raised x)"
  "from_collaborator (Inr v) = Inr v"
  by (simp_all add: from_collaborator_def)

lemma and_then_Inr_iff:
  "and_then m f = Inr y \<longleftrightarrow> (\<exists>v. m = Inr v \<and> f v = Inr y)"
  by (cases m) (simp_all add: and_then_def)

lemma py_index_simps:
  "py_index (x # xs) 0 = Inr x"
  "py_index (x # xs) (Suc n) = py_index xs n"
  "py_index [] n = Inl IndexError"
  by (simp_all add: py_index_def)

lemma py_index_numeral: "py_index (x # xs) (numeral k) = py_index xs (pred_numeral k)"
  by (simp add: py_index_def numeral_eq_Suc)

lemma py_last_snoc: "py_last (ys @ [u]) = Inr u"
  by (cases ys) (simp_all add: py_last_def)

text \<open>
  \<open>split\<close> never returns an empty list; a string without the separator is its own single
  segment; the first segment ends at the first separator; with no limit, the segments hold
  no separator, there is one more of them than separators, and the last one is what
  follows the last separator.
\<close>

lemma py_split_not_Nil: "py_split c m s \<noteq> []"
  by (induction c m s rule: py_split.induct) (auto split: list.splits)

lemma py_split_no_sep: "c \<notin> set s \<Longrightarrow> py_split c m s = [s]"
  by (induction s) auto

lemma py_split_zero: "py_split c 0 s = [s]"
  by (cases s) simp_all

lemma py_split_at_first:
  "c \<notin> set a \<Longrightarrow> m \<noteq> 0 \<Longrightarrow> py_split c m (a @ c # b) = a # py_split c (m - 1) b"
  by (induction a) auto

lemma py_split_once: "c \<notin> set a \<Longrightarrow> py_split c 1 (a @ c # b) = [a, b]"
  using py_split_at_first[of c a 1 b] by (simp add: py_split_zero)

lemma py_split_snoc:
  "m < 0 \<Longrightarrow> c \<notin> set u \<Longrightarrow> py_split c m (p @ c # u) = py_split c m p @ [u]"
proof (induction p arbitrary: m)
  case Nil
  then show ?case by (simp add: py_split_no_sep)
next
  case (Cons x p)
  show ?case
  proof (cases "x = c")
    case True
    then show ?thesis using Cons.IH[of "m - 1"] Cons.prems by simp
  next
    case False
    obtain seg segs where "py_split c m p = seg # segs"
      using py_split_not_Nil[of c m p] by (cases "py_split c m p") auto
    then show ?thesis using False Cons.IH[of m] Cons.prems by simp
  qed
qed

lemma py_split_segments_free:
  "m < 0 \<Longrightarrow> seg \<in> set (py_split c m s) \<Longrightarrow> c \<notin> set seg"
proof (induction s arbitrary: m seg)
  case Nil
  then show ?case by simp
next
  case (Cons x s)
  show ?case
  proof (cases "x = c")
    case True
    then show ?thesis using Cons.IH[of "m - 1" seg] Cons.prems by auto
  next
    case False
    obtain y ys where "py_split c m s = y # ys"
      using py_split_not_Nil[of c m s] by (cases "py_split c m s") auto
    then show ?thesis using False Cons.IH[of m] Cons.prems by auto
  qed
qed

lemma py_split_length:
  "m < 0 \<Longrightarrow> length (py_split c m s) = Suc (count_list s c)"
proof (induction s arbitrary: m)
  case Nil
  then show ?case by simp
next
  case (Cons x s)
  show ?case
  proof (cases "x = c")
    case True
    then show ?thesis using Cons.IH[of "m - 1"] Cons.prems by simp
  next
    case False
    obtain y ys where "py_split c m s = y # ys"
      using py_split_not_Nil[of c m s] by (cases "py_split c m s") auto
    then show ?thesis using False Cons.IH[of m] Cons.prems by simp
  qed
qed

lemma py_last_split:
  "c \<notin> set u \<Longrightarrow> py_last (py_split c (- 1) (p @ c # u)) = Inr u"
  by (simp add: py_split_snoc py_last_snoc)

section \<open>The session cache\<close>

lemma subscript_Inr_truthy: "subscript d k = Inr v \<Longrightarrow> truthy d"
  by (cases d) (auto split: option.splits)

lemma expiration_of_truthy: "expiration_of parse d = Inr x \<Longrightarrow> truthy d"
  by (auto simp: expiration_of_def and_then_Inr_iff dest: subscript_Inr_truthy)

lemma get_cached_session_present: "c key = Some d \<Longrightarrow> get_cached_session key c = (Inr d, c)"
  by (simp add: get_cached_session_def store_getitem_def)

lemma get_cached_session_absent: "c key = None \<Longrightarrow> get_cached_session key c = (Inr PNone, c)"
  by (simp add: get_cached_session_def store_getitem_def)

lemma get_cached_session_snd: "snd (get_cached_session key c) = c"
  by (simp add: get_cached_session_def split: sum.splits error.splits)

lemma get_session_token_snd: "snd (SessionCache_get_session_token parse now key c) = c"
proof (cases "get_cached_session key c")
  case (Pair r c')
  with get_cached_session_snd[of key c] have c': "c' = c" by simp
  show ?thesis
    by (cases r)
      (simp_all add: SessionCache_get_session_token_def Pair c' then_do_simps split: sum.splits)
qed

text \<open>
  An entry whose expiration is (or parses to) an aware datetime is a miss exactly when
  that instant is strictly before the clock.
\<close>

lemma get_session_token_aware:
  assumes "c key = Some d"
    and "expiration_of parse d = Inr (PDateTime (Aware t))"
  shows "SessionCache_get_session_token parse now key c =
           (if t < now then (Inr PNone, c) else (Inr d, c))"
  using assms expiration_of_truthy[OF assms(2)]
  by (simp add: SessionCache_get_session_token_def get_cached_session_present then_do_simps
      is_expired_def and_then_simps)

lemma inspect_error_kinds:
  assumes "and_then (subscript d ''Credentials'') (\<lambda>cr. subscript cr ''Expiration'') = Inl e"
  shows "e \<in> {TypeError, KeyError ''Credentials'', KeyError ''Expiration''}"
proof (cases "subscript d ''Credentials''")
  case (Inl a)
  then show ?thesis using assms by (cases d) (auto simp: and_then_simps split: option.splits)
next
  case (Inr cr)
  then show ?thesis using assms by (cases cr) (auto simp: and_then_simps split: option.splits)
qed

lemma expiration_of_test_data:
  "expiration_of parse_stub (SESSION_DATA (PStr ''2020-10-01T17:08:49UTC''))
     = Inr (PDateTime (Aware 1601572129000000))"
  "expiration_of parse_stub (SESSION_DATA (PStr ''2030-01-01T00:00:00UTC''))
     = Inr (PDateTime (Aware 1893456000000000))"
  "expiration_of parse (SESSION_DATA (PDateTime t)) = Inr (PDateTime t)"
  by (simp_all add: expiration_of_def SESSION_DATA_def parse_stub_def and_then_simps
      from_collaborator_simps)

text \<open>
  C1, as amended. For every entry in the store whose expiration is an aware datetime
  strictly before the current UTC time, \<open>SessionCache.get_session_token\<close> returns \<open>None\<close>
  and leaves the store as it is. An expiration exactly equal to the current time is not
  expired: \<open>_is_expired\<close> compares with \<open>expiration < now\<close>, and the entry is returned.
\<close>

theorem expired_entry_is_a_miss:
  assumes "c key = Some session_data"
    and "expiration_of parse session_data = Inr (PDateTime (Aware expiration))"
  shows "(expiration < now \<longrightarrow>
            SessionCache_get_session_token parse now key c = (Inr PNone, c))
       \<and> (expiration = now \<longrightarrow>
            SessionCache_get_session_token parse now key c = (Inr session_data, c))"
  using get_session_token_aware[of c key session_data parse expiration now] assms by simp

theorem expired_entry_is_a_miss_witness:
  "store_with (SESSION_DATA (PStr ''2020-10-01T17:08:49UTC'')) ''key''
     = Some (SESSION_DATA (PStr ''2020-10-01T17:08:49UTC''))
   \<and> expiration_of parse_stub (SESSION_DATA (PStr ''2020-10-01T17:08:49UTC''))
       = Inr (PDateTime (Aware 1601572129000000))
   \<and> (1601572129000000 :: int) < 1601913600000000
   \<and> SessionCache_get_session_token parse_stub 1601913600000000 ''key''
         (store_with (SESSION_DATA (PStr ''2020-10-01T17:08:49UTC'')))
       = (Inr PNone, store_with (SESSION_DATA (PStr ''2020-10-01T17:08:49UTC'')))"
proof -
  have h1: "store_with (SESSION_DATA (PStr ''2020-10-01T17:08:49UTC'')) ''key''
              = Some (SESSION_DATA (PStr ''2020-10-01T17:08:49UTC''))"
    by (simp add: store_with_def)
  note h2 = expiration_of_test_data(1)
  show ?thesis
    using expired_entry_is_a_miss[of "store_with (SESSION_DATA (PStr ''2020-10-01T17:08:49UTC''))"
        "''key''" "SESSION_DATA (PStr ''2020-10-01T17:08:49UTC'')" parse_stub
        1601572129000000 1601913600000000, OF h1 h2] h1 h2
    by simp
qed

text \<open>
  C1 as stated fails at the boundary: with the clock at the entry's expiration instant
  (inclusive bound \<open>expiration \<le> now\<close>), the entry is returned, not \<open>None\<close>.
\<close>

theorem boundary_entry_is_returned:
  "store_with (SESSION_DATA (PDateTime (Aware 1601572129000000))) ''key''
     = Some (SESSION_DATA (PDateTime (Aware 1601572129000000)))
   \<and> expiration_of parse_stub (SESSION_DATA (PDateTime (Aware 1601572129000000)))
       = Inr (PDateTime (Aware 1601572129000000))
   \<and> (1601572129000000 :: int) \<le> 1601572129000000
   \<and> fst (SessionCache_get_session_token parse_stub 1601572129000000 ''key''
         (store_with (SESSION_DATA (PDateTime (Aware 1601572129000000)))))
       = Inr (SESSION_DATA (PDateTime (Aware 1601572129000000)))
   \<and> fst (SessionCache_get_session_token parse_stub 1601572129000000 ''key''
         (store_with (SESSION_DATA (PDateTime (Aware 1601572129000000)))))
       \<noteq> Inr PNone"
proof -
  have h1: "store_with (SESSION_DATA (PDateTime (Aware 1601572129000000))) ''key''
              = Some (SESSION_DATA (PDateTime (Aware 1601572129000000)))"
    by (simp add: store_with_def)
  have h3: "SESSION_DATA (PDateTime (Aware 1601572129000000)) \<noteq> PNone"
    by (simp add: SESSION_DATA_def)
  show ?thesis
    using get_session_token_aware[of
        "store_with (SESSION_DATA (PDateTime (Aware 1601572129000000)))" "''key''"
        "SESSION_DATA (PDateTime (Aware 1601572129000000))" parse_stub 1601572129000000
        1601572129000000, OF h1 expiration_of_test_data(3)] h1 h3
    by (simp add: expiration_of_test_data(3))
qed

lemma cache_session_written:
  "store_setitem c key data = (Inr (), c') \<Longrightarrow>
     cache_session store_setitem key data c = (Inr PNone, c')"
  by (simp add: cache_session_def)

lemma json_value_test_data:
  "json_value strftime (SESSION_DATA (PDateTime t)) = SESSION_DATA (PStr (strftime t))"
  "json_value strftime (SESSION_DATA (PStr s)) = SESSION_DATA (PStr s)"
  by (simp_all add: SESSION_DATA_def)

text \<open>
  C4, as amended. Round trip: for every key, every store and every session record whose
  \<open>Credentials.Expiration\<close> is an aware datetime strictly greater than the current UTC
  time, \<open>cache_session(key, data)\<close> followed by \<open>get_session_token(key)\<close> returns \<open>data\<close>
  unchanged, provided the store's write succeeds and the store then reads \<open>data\<close> back
  under \<open>key\<close>; the in-memory store of the tests does so for every \<open>data\<close>.
\<close>

theorem cache_round_trip:
  assumes "expiration_of parse data = Inr (PDateTime (Aware expiration))"
    and "now < expiration"
  shows "(store_setitem c key data = (Inr (), c') \<and> c' key = Some data \<longrightarrow>
            round_trip store_setitem parse now key data c = (Inr data, c'))
       \<and> round_trip memory_setitem parse now key data c = (Inr data, c(key \<mapsto> data))"
proof (intro conjI impI)
  assume w: "store_setitem c key data = (Inr (), c') \<and> c' key = Some data"
  then have "SessionCache_get_session_token parse now key c' = (Inr data, c')"
    using get_session_token_aware[of c' key data parse expiration now] assms by simp
  with w show "round_trip store_setitem parse now key data c = (Inr data, c')"
    by (simp add: round_trip_def cache_session_written then_do_simps)
next
  have "SessionCache_get_session_token parse now key (c(key \<mapsto> data))
          = (Inr data, c(key \<mapsto> data))"
    using get_session_token_aware[of "c(key \<mapsto> data)" key data parse expiration now] assms
    by simp
  then show "round_trip memory_setitem parse now key data c = (Inr data, c(key \<mapsto> data))"
    by (simp add: round_trip_def cache_session_def memory_setitem_def then_do_simps)
qed

theorem cache_round_trip_witness:
  "expiration_of parse_stub (SESSION_DATA (PStr ''2030-01-01T00:00:00UTC''))
     = Inr (PDateTime (Aware 1893456000000000))
   \<and> (1601913600000000 :: int) < 1893456000000000
   \<and> json_file_setitem strftime_stub empty_store ''key''
        (SESSION_DATA (PStr ''2030-01-01T00:00:00UTC''))
       = (Inr (), store_with (SESSION_DATA (PStr ''2030-01-01T00:00:00UTC'')))
   \<and> store_with (SESSION_DATA (PStr ''2030-01-01T00:00:00UTC'')) ''key''
       = Some (SESSION_DATA (PStr ''2030-01-01T00:00:00UTC''))
   \<and> round_trip (json_file_setitem strftime_stub) parse_stub 1601913600000000 ''key''
        (SESSION_DATA (PStr ''2030-01-01T00:00:00UTC'')) empty_store
       = (Inr (SESSION_DATA (PStr ''2030-01-01T00:00:00UTC'')),
          store_with (SESSION_DATA (PStr ''2030-01-01T00:00:00UTC'')))
   \<and> round_trip memory_setitem parse_stub 1601913600000000 ''key''
        (SESSION_DATA (PDateTime (Aware 1893456000000000))) empty_store
       = (Inr (SESSION_DATA (PDateTime (Aware 1893456000000000))),
          store_with (SESSION_DATA (PDateTime (Aware 1893456000000000))))"
proof -
  have h2: "(1601913600000000 :: int) < 1893456000000000" by simp
  have h3: "json_file_setitem strftime_stub empty_store ''key''
        (SESSION_DATA (PStr ''2030-01-01T00:00:00UTC''))
       = (Inr (), store_with (SESSION_DATA (PStr ''2030-01-01T00:00:00UTC'')))"
    by (simp add: json_file_setitem_def json_value_test_data(2) store_with_def empty_store_def)
  have h4: "store_with (SESSION_DATA (PStr ''2030-01-01T00:00:00UTC'')) ''key''
       = Some (SESSION_DATA (PStr ''2030-01-01T00:00:00UTC''))"
    by (simp add: store_with_def)
  note json = cache_round_trip[where parse = parse_stub
      and data = "SESSION_DATA (PStr ''2030-01-01T00:00:00UTC'')"
      and expiration = 1893456000000000 and now = 1601913600000000
      and store_setitem = "json_file_setitem strftime_stub" and c = empty_store
      and key = "''key''" and c' = "store_with (SESSION_DATA (PStr ''2030-01-01T00:00:00UTC''))",
      OF expiration_of_test_data(2) h2, THEN conjunct1, THEN mp, OF conjI, OF h3 h4]
  have memory: "round_trip memory_setitem parse_stub 1601913600000000 ''key''
        (SESSION_DATA (PDateTime (Aware 1893456000000000))) empty_store
       = (Inr (SESSION_DATA (PDateTime (Aware 1893456000000000))),
          store_with (SESSION_DATA (PDateTime (Aware 1893456000000000))))"
    using cache_round_trip[where parse = parse_stub
      and data = "SESSION_DATA (PDateTime (Aware 1893456000000000))"
      and expiration = 1893456000000000 and now = 1601913600000000
      and store_setitem = memory_setitem and c = empty_store
      and key = "''key''" and c' = empty_store,
      OF expiration_of_test_data(3) h2, THEN conjunct2]
    by (simp add: store_with_def empty_store_def)
  show ?thesis
    by (intro conjI expiration_of_test_data(2) h2 h3 h4 json memory)
qed

text \<open>
  C4 as stated fails with the store the package is wired to: a session record as STS
  returns it, its \<open>Expiration\<close> a datetime after the current time, written to a store that
  keeps JSON and read back at once, comes back with the \<open>Expiration\<close> as a string.
\<close>

theorem json_store_round_trip_changes_data:
  "expiration_of parse_stub (SESSION_DATA (PDateTime (Aware 1893456000000000)))
     = Inr (PDateTime (Aware 1893456000000000))
   \<and> (1601913600000000 :: int) < 1893456000000000
   \<and> fst (round_trip (json_file_setitem strftime_stub) parse_stub 1601913600000000 ''key''
        (SESSION_DATA (PDateTime (Aware 1893456000000000))) empty_store)
       = Inr (SESSION_DATA (PStr ''2030-01-01T00:00:00UTC''))
   \<and> fst (round_trip (json_file_setitem strftime_stub) parse_stub 1601913600000000 ''key''
        (SESSION_DATA (PDateTime (Aware 1893456000000000))) empty_store)
       \<noteq> Inr (SESSION_DATA (PDateTime (Aware 1893456000000000)))"
proof -
  have w: "cache_session (json_file_setitem strftime_stub) ''key''
             (SESSION_DATA (PDateTime (Aware 1893456000000000))) empty_store
           = (Inr PNone, store_with (SESSION_DATA (PStr ''2030-01-01T00:00:00UTC'')))"
    by (simp add: cache_session_def json_file_setitem_def json_value_test_data(1)
        strftime_stub_def store_with_def empty_store_def)
  have h1: "store_with (SESSION_DATA (PStr ''2030-01-01T00:00:00UTC'')) ''key''
              = Some (SESSION_DATA (PStr ''2030-01-01T00:00:00UTC''))"
    by (simp add: store_with_def)
  have r: "SessionCache_get_session_token parse_stub 1601913600000000 ''key''
             (store_with (SESSION_DATA (PStr ''2030-01-01T00:00:00UTC'')))
           = (Inr (SESSION_DATA (PStr ''2030-01-01T00:00:00UTC'')),
              store_with (SESSION_DATA (PStr ''2030-01-01T00:00:00UTC'')))"
    using get_session_token_aware[of
        "store_with (SESSION_DATA (PStr ''2030-01-01T00:00:00UTC''))" "''key''"
        "SESSION_DATA (PStr ''2030-01-01T00:00:00UTC'')" parse_stub 1893456000000000
        1601913600000000, OF h1 expiration_of_test_data(2)]
    by simp
  have f: "fst (round_trip (json_file_setitem strftime_stub) parse_stub 1601913600000000 ''key''
        (SESSION_DATA (PDateTime (Aware 1893456000000000))) empty_store)
       = Inr (SESSION_DATA (PStr ''2030-01-01T00:00:00UTC''))"
    by (simp add: round_trip_def w r then_do_simps)
  have d: "SESSION_DATA (PStr ''2030-01-01T00:00:00UTC'')
             \<noteq> SESSION_DATA (PDateTime (Aware 1893456000000000))"
    by (simp add: SESSION_DATA_def)
  have h2: "(1601913600000000 :: int) < 1893456000000000" by simp
  show ?thesis
    using f d h2 by (simp add: expiration_of_test_data(3))
qed

text \<open>
  C6. For every key absent from the store, the store's lookup raises \<open>KeyError\<close>, and
  \<open>SessionCache.get_session_token\<close> returns \<open>None\<close> without raising.
\<close>

theorem missing_key_is_a_miss:
  assumes "c key = None"
  shows "store_getitem c key = Inl (KeyError key)
       \<and> SessionCache_get_session_token parse now key c = (Inr PNone, c)"
  using assms
  by (simp add: SessionCache_get_session_token_def get_cached_session_absent then_do_simps
      store_getitem_def)

theorem missing_key_is_a_miss_witness:
  "(Map.empty :: store) ''key'' = None
   \<and> store_getitem Map.empty ''key'' = Inl (KeyError ''key'')
   \<and> SessionCache_get_session_token parse_stub 1601913600000000 ''key'' Map.empty
       = (Inr PNone, Map.empty)"
proof -
  have h: "(Map.empty :: store) ''key'' = None" by simp
  show ?thesis
    using missing_key_is_a_miss[of Map.empty "''key''" parse_stub 1601913600000000, OF h] by simp
qed

text \<open>
  C9. \<open>SessionCache.get_session_token\<close> (and the lookup \<open>_get_cached_session\<close> in it) returns
  the store as it found it, whatever it returns or raises, so an entry it reports as
  expired is still read by the store afterwards; the one operation of the session cache
  that changes the store is \<open>cache_session\<close>, which is one write of \<open>data\<close> under \<open>key\<close>: it
  leaves the store as the store's \<open>__setitem__\<close> leaves it, and with the in-memory store it
  sets \<open>key\<close> to \<open>data\<close> whatever was there.
\<close>

theorem session_cache_frame:
  "snd (SessionCache_get_session_token parse now key c) = c
   \<and> snd (get_cached_session key c) = c
   \<and> store_getitem (snd (SessionCache_get_session_token parse now key c)) key
       = store_getitem c key
   \<and> snd (cache_session store_setitem key data c) = snd (store_setitem c key data)
   \<and> snd (cache_session memory_setitem key data c) = c(key \<mapsto> data)"
  by (simp add: get_session_token_snd get_cached_session_snd cache_session_def memory_setitem_def
      split: prod.splits sum.splits)

theorem session_cache_frame_witness:
  "SessionCache_get_session_token parse_stub 1601913600000000 ''key''
       (store_with (SESSION_DATA (PStr ''2020-10-01T17:08:49UTC'')))
     = (Inr PNone, store_with (SESSION_DATA (PStr ''2020-10-01T17:08:49UTC'')))
   \<and> store_getitem
       (snd (SessionCache_get_session_token parse_stub 1601913600000000 ''key''
          (store_with (SESSION_DATA (PStr ''2020-10-01T17:08:49UTC''))))) ''key''
     = Inr (SESSION_DATA (PStr ''2020-10-01T17:08:49UTC''))"
proof -
  have h1: "store_with (SESSION_DATA (PStr ''2020-10-01T17:08:49UTC'')) ''key''
              = Some (SESSION_DATA (PStr ''2020-10-01T17:08:49UTC''))"
    by (simp add: store_with_def)
  have "SessionCache_get_session_token parse_stub 1601913600000000 ''key''
          (store_with (SESSION_DATA (PStr ''2020-10-01T17:08:49UTC'')))
        = (Inr PNone, store_with (SESSION_DATA (PStr ''2020-10-01T17:08:49UTC'')))"
    using get_session_token_aware[of
        "store_with (SESSION_DATA (PStr ''2020-10-01T17:08:49UTC''))" "''key''"
        "SESSION_DATA (PStr ''2020-10-01T17:08:49UTC'')" parse_stub 1601572129000000
        1601913600000000, OF h1 expiration_of_test_data(1)]
    by simp
  then show ?thesis
    using session_cache_frame[where parse = parse_stub and now = 1601913600000000
        and key = "''key''" and c = "store_with (SESSION_DATA (PStr ''2020-10-01T17:08:49UTC''))"
        and store_setitem = memory_setitem and data = PNone] h1
    by (simp add: store_getitem_def)
qed

text \<open>
  C10. For every entry that is present and truthy (not empty) but from which
  \<open>session_data["Credentials"]["Expiration"]\<close> cannot be read, \<open>get_session_token\<close> raises
  the exception of that read (a \<open>KeyError\<close> of the missing field, or a \<open>TypeError\<close>) and
  does not return a miss: the \<open>try\<close> of \<open>_get_cached_session\<close> covers the store lookup only.
\<close>

theorem malformed_entry_raises:
  assumes "c key = Some session_data"
    and "truthy session_data"
    and "and_then (subscript session_data ''Credentials'')
           (\<lambda>credentials. subscript credentials ''Expiration'') = Inl e"
  shows "SessionCache_get_session_token parse now key c = (Inl e, c)
       \<and> e \<in> {TypeError, KeyError ''Credentials'', KeyError ''Expiration''}"
proof -
  have "expiration_of parse session_data = Inl e"
    using assms(3) by (cases "subscript session_data ''Credentials''")
      (auto simp: expiration_of_def and_then_def split: sum.splits)
  then show ?thesis using assms(1,2) inspect_error_kinds[OF assms(3)]
    by (simp add: SessionCache_get_session_token_def get_cached_session_present then_do_simps
      is_expired_def and_then_simps)
qed

theorem malformed_entry_raises_witness:
  "store_with (PDict [(''Credentials'', PDict [(''AccessKeyId'', PStr ''id'')])]) ''key''
     = Some (PDict [(''Credentials'', PDict [(''AccessKeyId'', PStr ''id'')])])
   \<and> truthy (PDict [(''Credentials'', PDict [(''AccessKeyId'', PStr ''id'')])])
   \<and> and_then (subscript (PDict [(''Credentials'', PDict [(''AccessKeyId'', PStr ''id'')])])
                 ''Credentials'')
        (\<lambda>credentials. subscript credentials ''Expiration'') = Inl (KeyError ''Expiration'')
   \<and> SessionCache_get_session_token parse_stub 1601913600000000 ''key''
        (store_with (PDict [(''Credentials'', PDict [(''AccessKeyId'', PStr ''id'')])]))
       = (Inl (KeyError ''Expiration''),
          store_with (PDict [(''Credentials'', PDict [(''AccessKeyId'', PStr ''id'')])]))"
proof -
  have h1: "store_with (PDict [(''Credentials'', PDict [(''AccessKeyId'', PStr ''id'')])]) ''key''
     = Some (PDict [(''Credentials'', PDict [(''AccessKeyId'', PStr ''id'')])])"
    by (simp add: store_with_def)
  have h2: "truthy (PDict [(''Credentials'', PDict [(''AccessKeyId'', PStr ''id'')])])"
    by simp
  have h3: "and_then (subscript (PDict [(''Credentials'', PDict [(''AccessKeyId'', PStr ''id'')])])
                 ''Credentials'')
        (\<lambda>credentials. subscript credentials ''Expiration'') = Inl (KeyError ''Expiration'')"
    by (simp add: and_then_simps)
  show ?thesis
    using malformed_entry_raises[of
        "store_with (PDict [(''Credentials'', PDict [(''AccessKeyId'', PStr ''id'')])])" "''key''"
        "PDict [(''Credentials'', PDict [(''AccessKeyId'', PStr ''id'')])]"
        "KeyError ''Expiration''" parse_stub 1601913600000000, OF h1 h2 h3] h1 h2 h3
    by simp
qed

section \<open>ARN parsing\<close>

lemma ARN_init_7:
  assumes "py_split (CHR '':'') (- 1) s = [e0, e1, e2, e3, e4, e5, e6]"
  shows "ARN_init s = Inr \<lparr> full_arn = s, arn = e0, partition' = e1, service = e2, region = e3,
            account = e4, resource_type = Some e5, resource = e6 \<rparr>"
  using assms
  by (simp add: ARN_init_def get_resource_def and_then_simps py_index_simps py_index_numeral)

lemma ARN_init_6:
  assumes "py_split (CHR '':'') (- 1) s = [e0, e1, e2, e3, e4, e5]"
  shows "ARN_init s = and_then (get_resource [e0, e1, e2, e3, e4, e5]) (\<lambda>(rt, r).
          Inr \<lparr> full_arn = s, arn = e0, partition' = e1, service = e2, region = e3,
            account = e4, resource_type = rt, resource = r \<rparr>)"
  using assms
  by (simp add: ARN_init_def and_then_simps py_index_simps py_index_numeral)

lemma get_resource_6_plain:
  "CHR ''/'' \<notin> set e5 \<Longrightarrow> get_resource [e0, e1, e2, e3, e4, e5] = Inr (None, e5)"
  by (simp add: get_resource_def and_then_simps py_index_simps py_index_numeral)

lemma get_resource_6_slash:
  "CHR ''/'' \<notin> set t \<Longrightarrow> get_resource [e0, e1, e2, e3, e4, t @ ''/'' @ r] = Inr (Some t, r)"
  by (simp add: get_resource_def and_then_simps py_index_simps py_index_numeral py_split_once)

text \<open>The constructor raises nothing but \<open>IndexError\<close> (fewer than six segments).\<close>

lemma ARN_init_error: "ARN_init s = Inl e \<Longrightarrow> e = IndexError"
  by (auto simp: ARN_init_def get_resource_def and_then_def py_index_def Let_def
      split: sum.splits if_splits prod.splits)

lemma ARN_init_short: "count_list s (CHR '':'') < 5 \<Longrightarrow> ARN_init s = Inl IndexError"
proof -
  assume "count_list s (CHR '':'') < 5"
  then have "length (py_split (CHR '':'') (- 1) s) < 6"
    by (simp add: py_split_length)
  then have "ARN_init s \<noteq> Inr a" for a
    by (auto simp: ARN_init_def get_resource_def and_then_def py_index_def Let_def
        split: sum.splits if_splits prod.splits)
  then show ?thesis using ARN_init_error[of s] by (cases "ARN_init s") auto
qed

text \<open>
  C5. For every string \<open>s\<close>: when \<open>s.split(":")\<close> has 7 segments, \<open>resource_type\<close> is
  segment 5 and \<open>resource\<close> is segment 6, both as they are; when it has 6 segments and
  segment 5 holds no \<open>/\<close>, \<open>resource_type\<close> is \<open>None\<close> and \<open>resource\<close> is segment 5; when it has
  6 segments and segment 5 is \<open>t/r\<close> with no \<open>/\<close> in \<open>t\<close> (the split at the first \<open>/\<close>),
  \<open>resource_type\<close> is \<open>t\<close> and \<open>resource\<close> is \<open>r\<close>. In each case \<open>partition\<close>, \<open>service\<close>,
  \<open>region\<close> and \<open>account\<close> are segments 1 to 4.
\<close>

theorem arn_parsing:
  "(py_split (CHR '':'') (- 1) s = [e0, e1, e2, e3, e4, e5, e6] \<longrightarrow>
      ARN_init s = Inr \<lparr> full_arn = s, arn = e0, partition' = e1, service = e2, region = e3,
            account = e4, resource_type = Some e5, resource = e6 \<rparr>)
   \<and> (py_split (CHR '':'') (- 1) s = [e0, e1, e2, e3, e4, e5] \<and> CHR ''/'' \<notin> set e5 \<longrightarrow>
      ARN_init s = Inr \<lparr> full_arn = s, arn = e0, partition' = e1, service = e2,
            region = e3, account = e4, resource_type = None, resource = e5 \<rparr>)
   \<and> (py_split (CHR '':'') (- 1) s = [e0, e1, e2, e3, e4, t @ ''/'' @ r] \<and> CHR ''/'' \<notin> set t \<longrightarrow>
      ARN_init s = Inr \<lparr> full_arn = s, arn = e0, partition' = e1, service = e2,
            region = e3, account = e4, resource_type = Some t, resource = r \<rparr>)"
proof (intro conjI impI)
  assume "py_split (CHR '':'') (- 1) s = [e0, e1, e2, e3, e4, e5, e6]"
  then show "ARN_init s = Inr \<lparr> full_arn = s, arn = e0, partition' = e1, service = e2,
            region = e3, account = e4, resource_type = Some e5, resource = e6 \<rparr>"
    by (rule ARN_init_7)
next
  assume "py_split (CHR '':'') (- 1) s = [e0, e1, e2, e3, e4, e5] \<and> CHR ''/'' \<notin> set e5"
  then show "ARN_init s = Inr \<lparr> full_arn = s, arn = e0, partition' = e1, service = e2,
            region = e3, account = e4, resource_type = None, resource = e5 \<rparr>"
    by (simp add: ARN_init_6 get_resource_6_plain and_then_simps)
next
  assume a: "py_split (CHR '':'') (- 1) s = [e0, e1, e2, e3, e4, t @ ''/'' @ r]
               \<and> CHR ''/'' \<notin> set t"
  then have "CHR ''/'' \<notin> set t" by simp
  then have "get_resource [e0, e1, e2, e3, e4, t @ ''/'' @ r] = Inr (Some t, r)"
    by (rule get_resource_6_slash)
  with a show "ARN_init s = Inr \<lparr> full_arn = s, arn = e0, partition' = e1, service = e2,
            region = e3, account = e4, resource_type = Some t, resource = r \<rparr>"
    by (simp only: ARN_init_6 and_then_simps prod.case)
qed

lemma split_test_arns:
  "py_split (CHR '':'') (- 1) ''arn:aws:iam::123456789012:role:common-roles/developer''
     = [''arn'', ''aws'', ''iam'', '''', ''123456789012'', ''role'', ''common-roles/developer'']"
  "py_split (CHR '':'') (- 1) ''arn:aws:iam::123456789012:root''
     = [''arn'', ''aws'', ''iam'', '''', ''123456789012'', ''root'']"
  "py_split (CHR '':'') (- 1) ''arn:aws:iam::123456789012:role/common-roles/developer''
     = [''arn'', ''aws'', ''iam'', '''', ''123456789012'', ''role'' @ ''/'' @ ''common-roles/developer'']"
  by simp_all

theorem arn_parsing_witness:
  "py_split (CHR '':'') (- 1) ''arn:aws:iam::123456789012:role:common-roles/developer''
     = [''arn'', ''aws'', ''iam'', '''', ''123456789012'', ''role'', ''common-roles/developer'']
   \<and> ARN_init ''arn:aws:iam::123456789012:role:common-roles/developer''
     = Inr \<lparr> full_arn = ''arn:aws:iam::123456789012:role:common-roles/developer'',
             arn = ''arn'', partition' = ''aws'', service = ''iam'', region = '''',
             account = ''123456789012'', resource_type = Some ''role'',
             resource = ''common-roles/developer'' \<rparr>
   \<and> py_split (CHR '':'') (- 1) ''arn:aws:iam::123456789012:root''
     = [''arn'', ''aws'', ''iam'', '''', ''123456789012'', ''root'']
   \<and> CHR ''/'' \<notin> set ''root''
   \<and> ARN_init ''arn:aws:iam::123456789012:root''
     = Inr \<lparr> full_arn = ''arn:aws:iam::123456789012:root'',
             arn = ''arn'', partition' = ''aws'', service = ''iam'', region = '''',
             account = ''123456789012'', resource_type = None, resource = ''root'' \<rparr>
   \<and> py_split (CHR '':'') (- 1) ''arn:aws:iam::123456789012:role/common-roles/developer''
     = [''arn'', ''aws'', ''iam'', '''', ''123456789012'', ''role/common-roles/developer'']
   \<and> CHR ''/'' \<notin> set ''role''
   \<and> ARN_init ''arn:aws:iam::123456789012:role/common-roles/developer''
     = Inr \<lparr> full_arn = ''arn:aws:iam::123456789012:role/common-roles/developer'',
             arn = ''arn'', partition' = ''aws'', service = ''iam'', region = '''',
             account = ''123456789012'', resource_type = Some ''role'',
             resource = ''common-roles/developer'' \<rparr>"
proof -
  have n1: "CHR ''/'' \<notin> set ''root''" by simp
  have n2: "CHR ''/'' \<notin> set ''role''" by simp
  have a7: "ARN_init ''arn:aws:iam::123456789012:role:common-roles/developer''
     = Inr \<lparr> full_arn = ''arn:aws:iam::123456789012:role:common-roles/developer'',
             arn = ''arn'', partition' = ''aws'', service = ''iam'', region = '''',
             account = ''123456789012'', resource_type = Some ''role'',
             resource = ''common-roles/developer'' \<rparr>"
    using arn_parsing[of "''arn:aws:iam::123456789012:role:common-roles/developer''"
        "''arn''" "''aws''" "''iam''" "''''" "''123456789012''" "''role''"
        "''common-roles/developer''" "''''" "''''", THEN conjunct1, THEN mp,
        OF split_test_arns(1)] .
  have a6: "ARN_init ''arn:aws:iam::123456789012:root''
     = Inr \<lparr> full_arn = ''arn:aws:iam::123456789012:root'',
             arn = ''arn'', partition' = ''aws'', service = ''iam'', region = '''',
             account = ''123456789012'', resource_type = None, resource = ''root'' \<rparr>"
    using arn_parsing[of "''arn:aws:iam::123456789012:root''"
        "''arn''" "''aws''" "''iam''" "''''" "''123456789012''" "''root''"
        "''''" "''''" "''''", THEN conjunct2, THEN conjunct1, THEN mp,
        OF conjI, OF split_test_arns(2) n1] .
  have a6s: "ARN_init ''arn:aws:iam::123456789012:role/common-roles/developer''
     = Inr \<lparr> full_arn = ''arn:aws:iam::123456789012:role/common-roles/developer'',
             arn = ''arn'', partition' = ''aws'', service = ''iam'', region = '''',
             account = ''123456789012'', resource_type = Some ''role'',
             resource = ''common-roles/developer'' \<rparr>"
    using arn_parsing[of "''arn:aws:iam::123456789012:role/common-roles/developer''"
        "''arn''" "''aws''" "''iam''" "''''" "''123456789012''" "''''"
        "''''" "''role''" "''common-roles/developer''", THEN conjunct2, THEN conjunct2, THEN mp,
        OF conjI, OF split_test_arns(3) n2] .
  show ?thesis using a7 a6 a6s split_test_arns(1,2) split_test_arns(3) n1 n2
    by simp
qed

section \<open>The MFA session factory\<close>

lemma duration_12h: "MFA_SESSION_DURATION_seconds = 43200"
  by (simp add: MFA_SESSION_DURATION_seconds_def timedelta_hours_seconds_def)

text \<open>
  \<open>_get_account_and_user\<close> calls \<open>get_caller_identity\<close> once and returns the account with
  what follows the last \<open>/\<close> of the ARN (the whole ARN when it has none).
\<close>

lemma get_account_and_user_ok:
  assumes "response = Inr identity"
    and "map_of identity ''Arn'' = Some arn_string"
    and "map_of identity ''Account'' = Some account_id"
    and "arn_string = prefix @ ''/'' @ user \<and> CHR ''/'' \<notin> set user
         \<or> CHR ''/'' \<notin> set arn_string \<and> user = arn_string"
  shows "get_account_and_user response tr
           = (Inr (account_id, user), tr @ [Sts_get_caller_identity])"
proof -
  have "py_last (py_split (CHR ''/'') (- 1) arn_string) = Inr user"
    using assms(4) py_last_split[of "CHR ''/''" user prefix]
    by (auto simp: py_split_no_sep py_last_def)
  then show ?thesis using assms(1-3)
    by (simp add: get_account_and_user_def call_def then_do_simps from_collaborator_simps
        identity_getitem_def and_then_simps)
qed

text \<open>An entry with an expiration not before the clock is returned, and the world is left alone.\<close>

lemma factory_hit:
  assumes "cache w SESSION_KEY = Some entry"
    and "expiration_of (dateutil_parse env) entry = Inr (PDateTime (Aware expiration))"
    and "now \<le> expiration"
  shows "CachedMfaSessionFactory_get_session_token env now mfa_token w = (Inr entry, w)"
  using get_session_token_aware[of "cache w" SESSION_KEY entry "dateutil_parse env" expiration now]
    assms expiration_of_truthy[OF assms(2)]
  by (simp add: CachedMfaSessionFactory_get_session_token_def on_cache_def then_do_simps)

text \<open>
  C2. When the session cache returns a miss (\<open>None\<close>) for the fixed key and an MFA code
  is supplied, and \<open>get_caller_identity\<close> answers with account \<open>account_id\<close> and an ARN whose
  part after the last \<open>/\<close> is \<open>user\<close> (the whole ARN when it has no \<open>/\<close>),
  \<open>CachedMfaSessionFactory.get_session_token\<close> calls \<open>get_caller_identity\<close>, then
  \<open>get_session_token\<close> with \<open>DurationSeconds\<close> 43200, \<open>SerialNumber\<close>
  \<open>arn:aws:iam::{account}:mfa/{user}\<close> and the supplied code; it writes the response of that
  exchange to the store under \<open>temporary_session\<close> and returns it unchanged. The cache is
  then what that write leaves; with the in-memory store it holds the response under
  \<open>temporary_session\<close>.
\<close>

theorem factory_cache_miss_creates_session:
  assumes "fst (SessionCache_get_session_token (dateutil_parse env) now SESSION_KEY (cache w))
             = Inr PNone"
    and "mfa_token \<noteq> []"
    and "sts_get_caller_identity env = Inr identity"
    and "map_of identity ''Arn'' = Some arn_string"
    and "map_of identity ''Account'' = Some account_id"
    and "arn_string = prefix @ ''/'' @ user \<and> CHR ''/'' \<notin> set user
         \<or> CHR ''/'' \<notin> set arn_string \<and> user = arn_string"
    and "sts_get_session_token env 43200 (''arn:aws:iam::'' @ account_id @ '':mfa/'' @ user)
           mfa_token = Inr response"
  shows "(cache_setitem env (cache w) ''temporary_session'' response = (Inr (), c') \<longrightarrow>
          CachedMfaSessionFactory_get_session_token env now (Some mfa_token) w =
           (Inr response,
            \<lparr> cache = c',
              trace = trace w @
                [Sts_get_caller_identity,
                 Sts_get_session_token 43200
                   (''arn:aws:iam::'' @ account_id @ '':mfa/'' @ user) mfa_token] \<rparr>))
       \<and> (cache_setitem env = memory_setitem \<longrightarrow>
          CachedMfaSessionFactory_get_session_token env now (Some mfa_token) w =
           (Inr response,
            \<lparr> cache = (cache w)(''temporary_session'' \<mapsto> response),
              trace = trace w @
                [Sts_get_caller_identity,
                 Sts_get_session_token 43200
                   (''arn:aws:iam::'' @ account_id @ '':mfa/'' @ user) mfa_token] \<rparr>))"
proof -
  have miss: "SessionCache_get_session_token (dateutil_parse env) now SESSION_KEY (cache w)
                = (Inr PNone, cache w)"
    using assms(1) get_session_token_snd[of "dateutil_parse env" now SESSION_KEY "cache w"]
    by (cases "SessionCache_get_session_token (dateutil_parse env) now SESSION_KEY (cache w)") simp
  have user: "get_account_and_user (sts_get_caller_identity env) (trace w)
                = (Inr (account_id, user), trace w @ [Sts_get_caller_identity])"
    using get_account_and_user_ok[OF assms(3) assms(4) assms(5) assms(6)] .
  have created: "create_session env (Some mfa_token) w =
           (Inr response,
            \<lparr> cache = c,
              trace = trace w @
                [Sts_get_caller_identity,
                 Sts_get_session_token 43200
                   (''arn:aws:iam::'' @ account_id @ '':mfa/'' @ user) mfa_token] \<rparr>)"
    if "cache_setitem env (cache w) ''temporary_session'' response = (Inr (), c)" for c
    using that assms(2) assms(7) user
    by (simp add: create_session_def then_do_simps on_trace_def on_cache_def call_def
        duration_12h from_collaborator_simps cache_session_written SESSION_KEY_def
        del: append_Cons append_Nil)
  have general: "CachedMfaSessionFactory_get_session_token env now (Some mfa_token) w =
           (Inr response,
            \<lparr> cache = c,
              trace = trace w @
                [Sts_get_caller_identity,
                 Sts_get_session_token 43200
                   (''arn:aws:iam::'' @ account_id @ '':mfa/'' @ user) mfa_token] \<rparr>)"
    if "cache_setitem env (cache w) ''temporary_session'' response = (Inr (), c)" for c
    using created[OF that] miss
    by (simp add: CachedMfaSessionFactory_get_session_token_def on_cache_def then_do_simps)
  show ?thesis
  proof (intro conjI impI)
    assume "cache_setitem env (cache w) ''temporary_session'' response = (Inr (), c')"
    then show "CachedMfaSessionFactory_get_session_token env now (Some mfa_token) w =
           (Inr response,
            \<lparr> cache = c',
              trace = trace w @
                [Sts_get_caller_identity,
                 Sts_get_session_token 43200
                   (''arn:aws:iam::'' @ account_id @ '':mfa/'' @ user) mfa_token] \<rparr>)"
      by (rule general)
  next
    assume "cache_setitem env = memory_setitem"
    then have "cache_setitem env (cache w) ''temporary_session'' response
                 = (Inr (), (cache w)(''temporary_session'' \<mapsto> response))"
      by (simp add: memory_setitem_def)
    then show "CachedMfaSessionFactory_get_session_token env now (Some mfa_token) w =
           (Inr response,
            \<lparr> cache = (cache w)(''temporary_session'' \<mapsto> response),
              trace = trace w @
                [Sts_get_caller_identity,
                 Sts_get_session_token 43200
                   (''arn:aws:iam::'' @ account_id @ '':mfa/'' @ user) mfa_token] \<rparr>)"
      by (rule general)
  qed
qed

theorem factory_cache_miss_creates_session_witness:
  "fst (SessionCache_get_session_token (dateutil_parse mock_collaborators) 1601913600000000
          SESSION_KEY (cache cold_world)) = Inr PNone
   \<and> ''token'' \<noteq> []
   \<and> sts_get_caller_identity mock_collaborators
       = Inr [(''Arn'', ''arn''), (''Account'', ''123456789012'')]
   \<and> CHR ''/'' \<notin> set ''arn''
   \<and> sts_get_session_token mock_collaborators 43200 ''arn:aws:iam::123456789012:mfa/arn'' ''token''
       = Inr (SESSION_DATA (PStr ''2030-01-01T00:00:00UTC''))
   \<and> cache_setitem mock_collaborators = memory_setitem
   \<and> CachedMfaSessionFactory_get_session_token mock_collaborators 1601913600000000
        (Some ''token'') cold_world
       = (Inr (SESSION_DATA (PStr ''2030-01-01T00:00:00UTC'')), warm_world)"
proof -
  have h8: "cache_setitem mock_collaborators = memory_setitem"
    by (simp add: mock_collaborators_def)
  have h1: "fst (SessionCache_get_session_token (dateutil_parse mock_collaborators)
              1601913600000000 SESSION_KEY (cache cold_world)) = Inr PNone"
    by (simp add: cold_world_def SessionCache_get_session_token_def get_cached_session_absent
        then_do_simps)
  have h2: "''token'' \<noteq> []" by simp
  have h3: "sts_get_caller_identity mock_collaborators
       = Inr [(''Arn'', ''arn''), (''Account'', ''123456789012'')]"
    by (simp add: mock_collaborators_def)
  have h4: "map_of [(''Arn'', ''arn''), (''Account'', ''123456789012'')] ''Arn'' = Some ''arn''"
    by simp
  have h5: "map_of [(''Arn'', ''arn''), (''Account'', ''123456789012'')] ''Account''
              = Some ''123456789012''"
    by simp
  have h6: "''arn'' = '''' @ ''/'' @ ''arn'' \<and> CHR ''/'' \<notin> set ''arn''
         \<or> CHR ''/'' \<notin> set ''arn'' \<and> ''arn'' = ''arn''"
    by simp
  have h7: "sts_get_session_token mock_collaborators 43200
              (''arn:aws:iam::'' @ ''123456789012'' @ '':mfa/'' @ ''arn'') ''token''
       = Inr (SESSION_DATA (PStr ''2030-01-01T00:00:00UTC''))"
    by (simp add: mock_collaborators_def)
  show ?thesis
    using factory_cache_miss_creates_session[where env = mock_collaborators
        and now = 1601913600000000 and w = cold_world and mfa_token = "''token''"
        and identity = "[(''Arn'', ''arn''), (''Account'', ''123456789012'')]"
        and arn_string = "''arn''" and account_id = "''123456789012''" and prefix = "''''"
        and user = "''arn''" and response = "SESSION_DATA (PStr ''2030-01-01T00:00:00UTC'')"
        and c' = "cache cold_world",
        OF h1 h2 h3 h4 h5 h6 h7, THEN conjunct2, THEN mp, OF h8] h1 h3 h7 h8
    by (simp add: warm_world_def cold_world_def)
qed

text \<open>
  C3. In every state whose cache holds, under the fixed key, an entry with an expiration
  after the current UTC time, \<open>CachedMfaSessionFactory.get_session_token\<close> returns that
  entry and leaves the cache and the trace of remote calls as they were: neither
  \<open>get_caller_identity\<close> nor \<open>get_session_token\<close> is called. Two calls in succession
  return the entry both times and make no remote call, so when one exchange had been
  made before them the count of exchanges is still 1 after them.
\<close>

theorem factory_warm_cache_no_exchange:
  assumes "cache w SESSION_KEY = Some entry"
    and "expiration_of (dateutil_parse env) entry = Inr (PDateTime (Aware expiration))"
    and "now < expiration"
    and "now' < expiration"
  shows "CachedMfaSessionFactory_get_session_token env now mfa_token w = (Inr entry, w)
       \<and> then_do (CachedMfaSessionFactory_get_session_token env now mfa_token w)
           (\<lambda>r. CachedMfaSessionFactory_get_session_token env now' mfa_token') = (Inr entry, w)
       \<and> (exchange_count (trace w) = 1 \<longrightarrow>
            exchange_count (trace (snd (then_do
              (CachedMfaSessionFactory_get_session_token env now mfa_token w)
              (\<lambda>r. CachedMfaSessionFactory_get_session_token env now' mfa_token')))) = 1)"
  using factory_hit[of w entry env expiration now mfa_token]
    factory_hit[of w entry env expiration now' mfa_token'] assms
  by (simp add: then_do_simps)

theorem factory_warm_cache_no_exchange_witness:
  "cache warm_world SESSION_KEY = Some (SESSION_DATA (PStr ''2030-01-01T00:00:00UTC''))
   \<and> expiration_of (dateutil_parse mock_collaborators)
        (SESSION_DATA (PStr ''2030-01-01T00:00:00UTC''))
       = Inr (PDateTime (Aware 1893456000000000))
   \<and> (1601913600000000 :: int) < 1893456000000000
   \<and> (1601913601000000 :: int) < 1893456000000000
   \<and> exchange_count (trace warm_world) = 1
   \<and> CachedMfaSessionFactory_get_session_token mock_collaborators 1601913600000000 None
        warm_world
       = (Inr (SESSION_DATA (PStr ''2030-01-01T00:00:00UTC'')), warm_world)
   \<and> exchange_count (trace (snd (then_do
        (CachedMfaSessionFactory_get_session_token mock_collaborators 1601913600000000 None
           warm_world)
        (\<lambda>r. CachedMfaSessionFactory_get_session_token mock_collaborators 1601913601000000
           None)))) = 1"
proof -
  have h1: "cache warm_world SESSION_KEY = Some (SESSION_DATA (PStr ''2030-01-01T00:00:00UTC''))"
    by (simp add: warm_world_def SESSION_KEY_def)
  have h2: "expiration_of (dateutil_parse mock_collaborators)
        (SESSION_DATA (PStr ''2030-01-01T00:00:00UTC''))
       = Inr (PDateTime (Aware 1893456000000000))"
    by (simp add: mock_collaborators_def expiration_of_test_data(2))
  have h3: "(1601913600000000 :: int) < 1893456000000000" by simp
  have h4: "(1601913601000000 :: int) < 1893456000000000" by simp
  have h5: "exchange_count (trace warm_world) = 1"
    by (simp add: warm_world_def exchange_count_def)
  note t = factory_warm_cache_no_exchange[of warm_world
        "SESSION_DATA (PStr ''2030-01-01T00:00:00UTC'')" mock_collaborators 1893456000000000
        1601913600000000 1601913601000000 None None, OF h1 h2 h3 h4]
  note c1 = t[THEN conjunct1]
  note c3 = t[THEN conjunct2, THEN conjunct2, THEN mp, OF h5]
  show ?thesis
    by (intro conjI h1 h2 h3 h4 h5 c1 c3)
qed

text \<open>
  The scenario of \<open>test_temporary_credentials_from_session\<close>: a first call on an empty
  cache makes the exchange, a second call finds the entry, and one exchange was made in all.
\<close>

lemma factory_twice_one_exchange:
  "then_do
     (CachedMfaSessionFactory_get_session_token mock_collaborators 1601913600000000
        (Some ''token'') cold_world)
     (\<lambda>r. CachedMfaSessionFactory_get_session_token mock_collaborators 1601913601000000 None)
     = (Inr (SESSION_DATA (PStr ''2030-01-01T00:00:00UTC'')), warm_world)
   \<and> exchange_count (trace warm_world) = 1"
proof -
  have first: "CachedMfaSessionFactory_get_session_token mock_collaborators 1601913600000000
        (Some ''token'') cold_world
       = (Inr (SESSION_DATA (PStr ''2030-01-01T00:00:00UTC'')), warm_world)"
    by (simp add: CachedMfaSessionFactory_get_session_token_def create_session_def
        get_account_and_user_def SessionCache_get_session_token_def get_cached_session_def
        store_getitem_def on_cache_def on_trace_def call_def then_do_simps and_then_simps
        from_collaborator_simps identity_getitem_def py_last_def cache_session_def
        memory_setitem_def duration_12h SESSION_KEY_def mock_collaborators_def cold_world_def
        warm_world_def)
  have second: "CachedMfaSessionFactory_get_session_token mock_collaborators 1601913601000000
        None warm_world
       = (Inr (SESSION_DATA (PStr ''2030-01-01T00:00:00UTC'')), warm_world)"
    by (rule factory_hit[where expiration = 1893456000000000])
      (simp_all add: warm_world_def SESSION_KEY_def mock_collaborators_def
        expiration_of_test_data(2))
  show ?thesis
    by (simp add: first second then_do_simps) (simp add: warm_world_def exchange_count_def)
qed

section \<open>The SSO provider\<close>

text \<open>
  C7. For every SSO provider, reading \<open>temporary_credentials\<close> raises
  \<open>NotImplementedError\<close> and returns no value.
\<close>

theorem sso_temporary_credentials_unsupported:
  "SSO_temporary_credentials self
     = Inl (NotImplementedError ''SSO session uses token, not credentials'')
   \<and> (\<forall>v. SSO_temporary_credentials self \<noteq> Inr v)"
  by (simp add: SSO_temporary_credentials_def)

lemma role_arn_split:
  assumes "CHR '':'' \<notin> set a" and "CHR '':'' \<notin> set r"
  shows "py_split (CHR '':'') (- 1) (''arn:aws:iam::'' @ a @ '':role/'' @ r)
           = [''arn'', ''aws'', ''iam'', '''', a, ''role/'' @ r]"
proof -
  have "py_split (CHR '':'') (- 5) (a @ CHR '':'' # (''role/'' @ r))
          = a # py_split (CHR '':'') (- 6) (''role/'' @ r)"
    using py_split_at_first[of "CHR '':''" a "- 5" "''role/'' @ r"] assms(1) by simp
  moreover have "py_split (CHR '':'') (- 6) (''role/'' @ r) = [''role/'' @ r]"
    using assms(2) by (intro py_split_no_sep) simp
  ultimately show ?thesis by simp
qed

lemma ARN_init_role:
  assumes "CHR '':'' \<notin> set a" and "CHR '':'' \<notin> set r"
  shows "ARN_init (''arn:aws:iam::'' @ a @ '':role/'' @ r)
           = Inr \<lparr> full_arn = ''arn:aws:iam::'' @ a @ '':role/'' @ r, arn = ''arn'',
                   partition' = ''aws'', service = ''iam'', region = '''', account = a,
                   resource_type = Some ''role'', resource = r \<rparr>"
  using ARN_init_6[OF role_arn_split[OF assms]] get_resource_6_slash[of "''role''" _ _ _ _ _ r]
  by (simp add: and_then_simps)

lemma user_id_middle:
  assumes "CHR '':'' \<notin> set k" and "CHR '':'' \<notin> set n"
  shows "py_index (py_split (CHR '':'') 2 (k @ '':'' @ n @ '':'' @ s)) 1 = Inr n"
  using py_split_at_first[of "CHR '':''" k 2 "n @ '':'' @ s"]
    py_split_at_first[of "CHR '':''" n 1 s] assms
  by (simp add: py_split_zero py_index_simps)

lemma get_any_role_no_roles:
  "fst (get_any_role lib self tr) = Inl (Exception ''No accessible roles found'')
     \<longleftrightarrow> list_available_roles lib (sso_region self) (start_url self) True = Exhausted"
  by (auto simp: get_any_role_def Let_def split: generator.splits dest: ARN_init_error)

lemma SSO_get_user_no_roles:
  "fst (SSO_get_user lib self tr) = Inl (Exception ''No accessible roles found'')
     \<longleftrightarrow> list_available_roles lib (sso_region self) (start_url self) True = Exhausted"
proof -
  have "fst (SSO_get_user lib self tr) = Inl (Exception ''No accessible roles found'')
     \<longleftrightarrow> fst (get_any_role lib self tr) = Inl (Exception ''No accessible roles found'')"
    by (auto simp: SSO_get_user_def SSO_assume_role_session_def then_do_def call_def
        from_collaborator_def and_then_def identity_getitem_def py_index_def
        split: sum.splits prod.splits option.splits if_splits dest: ARN_init_error)
  then show ?thesis by (simp add: get_any_role_no_roles)
qed

lemma SSO_get_user_first_role:
  assumes "list_available_roles lib (sso_region self) (start_url self) True
             = Yield (account_id, account_name, role_name) rest"
    and "CHR '':'' \<notin> set account_id" and "CHR '':'' \<notin> set role_name"
    and "get_boto3_session lib (start_url self) (sso_region self) account_id role_name
           ''eu-west-1'' True = Inr session"
    and "session_get_caller_identity lib session = Inr user_identity"
    and "map_of user_identity ''UserId'' = Some (kind @ '':'' @ name @ '':'' @ session_part)"
    and "CHR '':'' \<notin> set kind" and "CHR '':'' \<notin> set name"
  shows "SSO_get_user lib self tr =
           (Inr name,
            tr @ [Sso_list_available_roles (sso_region self) (start_url self) True,
                  Sso_get_boto3_session (start_url self) (sso_region self) account_id role_name
                    ''eu-west-1'' True,
                  Session_get_caller_identity])"
  using assms(1,4,5,6) ARN_init_role[OF assms(2,3)] user_id_middle[OF assms(7,8), of session_part]
  by (simp add: SSO_get_user_def get_any_role_def SSO_assume_role_session_def then_do_simps
        call_def from_collaborator_simps identity_getitem_def and_then_simps Let_def
      del: append_Cons append_Nil)

text \<open>
  C8. \<open>SSOSessionProvider.get_user\<close> raises \<open>Exception("No accessible roles found")\<close> if and
  only if \<open>list_available_roles\<close> is exhausted without yielding a role. When it yields a
  first role (account id and role name without \<open>:\<close>), \<open>get_user\<close> asks for the session of
  that account and role in region \<open>eu-west-1\<close> (the session name \<open>test\<close> goes nowhere), and,
  the session obtained and its \<open>get_caller_identity\<close> answering with a \<open>UserId\<close> of the
  form \<open>kind:name:session\<close>, returns \<open>name\<close>, the middle segment.
\<close>

theorem sso_get_user:
  "(fst (SSO_get_user lib self tr) = Inl (Exception ''No accessible roles found'')
      \<longleftrightarrow> list_available_roles lib (sso_region self) (start_url self) True = Exhausted)
   \<and> (list_available_roles lib (sso_region self) (start_url self) True
          = Yield (account_id, account_name, role_name) rest
        \<and> CHR '':'' \<notin> set account_id \<and> CHR '':'' \<notin> set role_name
        \<and> get_boto3_session lib (start_url self) (sso_region self) account_id role_name
            ''eu-west-1'' True = Inr session
        \<and> session_get_caller_identity lib session = Inr user_identity
        \<and> map_of user_identity ''UserId'' = Some (kind @ '':'' @ name @ '':'' @ session_part)
        \<and> CHR '':'' \<notin> set kind \<and> CHR '':'' \<notin> set name
      \<longrightarrow> SSO_get_user lib self tr =
           (Inr name,
            tr @ [Sso_list_available_roles (sso_region self) (start_url self) True,
                  Sso_get_boto3_session (start_url self) (sso_region self) account_id role_name
                    ''eu-west-1'' True,
                  Session_get_caller_identity]))"
proof (intro conjI impI)
  show "fst (SSO_get_user lib self tr) = Inl (Exception ''No accessible roles found'')
      \<longleftrightarrow> list_available_roles lib (sso_region self) (start_url self) True = Exhausted"
    by (rule SSO_get_user_no_roles)
next
  assume "list_available_roles lib (sso_region self) (start_url self) True
          = Yield (account_id, account_name, role_name) rest
        \<and> CHR '':'' \<notin> set account_id \<and> CHR '':'' \<notin> set role_name
        \<and> get_boto3_session lib (start_url self) (sso_region self) account_id role_name
            ''eu-west-1'' True = Inr session
        \<and> session_get_caller_identity lib session = Inr user_identity
        \<and> map_of user_identity ''UserId'' = Some (kind @ '':'' @ name @ '':'' @ session_part)
        \<and> CHR '':'' \<notin> set kind \<and> CHR '':'' \<notin> set name"
  then show "SSO_get_user lib self tr =
           (Inr name,
            tr @ [Sso_list_available_roles (sso_region self) (start_url self) True,
                  Sso_get_boto3_session (start_url self) (sso_region self) account_id role_name
                    ''eu-west-1'' True,
                  Session_get_caller_identity])"
    using SSO_get_user_first_role[where lib = lib and self = self and tr = tr
        and account_id = account_id and account_name = account_name and role_name = role_name
        and rest = rest and session = session and user_identity = user_identity
        and kind = kind and name = name and session_part = session_part]
    by simp
qed

theorem sso_get_user_witness:
  "list_available_roles no_role_sso_lib (sso_region sso_provider) (start_url sso_provider) True
     = Exhausted
   \<and> fst (SSO_get_user no_role_sso_lib sso_provider [])
     = Inl (Exception ''No accessible roles found'')
   \<and> list_available_roles one_role_sso_lib (sso_region sso_provider) (start_url sso_provider) True
     = Yield (''123456789012'', ''development'', ''administrator'') Exhausted
   \<and> get_boto3_session one_role_sso_lib (start_url sso_provider) (sso_region sso_provider)
       ''123456789012'' ''administrator'' ''eu-west-1'' True = Inr 0
   \<and> session_get_caller_identity one_role_sso_lib 0
     = Inr [(''UserId'', ''AROAEXAMPLE:fred:botocore-session''), (''Account'', ''123456789012'')]
   \<and> SSO_get_user one_role_sso_lib sso_provider []
     = (Inr ''fred'',
        [Sso_list_available_roles ''eu-west-1'' ''https://example.awsapps.com/start'' True,
         Sso_get_boto3_session ''https://example.awsapps.com/start'' ''eu-west-1''
           ''123456789012'' ''administrator'' ''eu-west-1'' True,
         Session_get_caller_identity])"
proof -
  have e: "list_available_roles no_role_sso_lib (sso_region sso_provider)
             (start_url sso_provider) True = Exhausted"
    by (simp add: no_role_sso_lib_def)
  have none: "fst (SSO_get_user no_role_sso_lib sso_provider [])
     = Inl (Exception ''No accessible roles found'')"
    using sso_get_user[of no_role_sso_lib sso_provider "[]", THEN conjunct1] e by simp
  have h: "list_available_roles one_role_sso_lib (sso_region sso_provider)
          (start_url sso_provider) True
          = Yield (''123456789012'', ''development'', ''administrator'') Exhausted
        \<and> CHR '':'' \<notin> set ''123456789012'' \<and> CHR '':'' \<notin> set ''administrator''
        \<and> get_boto3_session one_role_sso_lib (start_url sso_provider) (sso_region sso_provider)
            ''123456789012'' ''administrator'' ''eu-west-1'' True = Inr 0
        \<and> session_get_caller_identity one_role_sso_lib 0
            = Inr [(''UserId'', ''AROAEXAMPLE:fred:botocore-session''),
                   (''Account'', ''123456789012'')]
        \<and> map_of [(''UserId'', ''AROAEXAMPLE:fred:botocore-session''),
                   (''Account'', ''123456789012'')] ''UserId''
            = Some (''AROAEXAMPLE'' @ '':'' @ ''fred'' @ '':'' @ ''botocore-session'')
        \<and> CHR '':'' \<notin> set ''AROAEXAMPLE'' \<and> CHR '':'' \<notin> set ''fred''"
    by (simp add: one_role_sso_lib_def)
  have one: "SSO_get_user one_role_sso_lib sso_provider [] =
           (Inr ''fred'',
            [] @ [Sso_list_available_roles (sso_region sso_provider) (start_url sso_provider) True,
                  Sso_get_boto3_session (start_url sso_provider) (sso_region sso_provider)
                    ''123456789012'' ''administrator'' ''eu-west-1'' True,
                  Session_get_caller_identity])"
    using sso_get_user[of one_role_sso_lib sso_provider "[]" "''123456789012''"
        "''development''" "''administrator''" Exhausted 0
        "[(''UserId'', ''AROAEXAMPLE:fred:botocore-session''), (''Account'', ''123456789012'')]"
        "''AROAEXAMPLE''" "''fred''" "''botocore-session''", THEN conjunct2, THEN mp, OF h] .
  show ?thesis using e none one h
    by (simp add: sso_provider_def)
qed

end
